theory Spec2Isabelle
  imports Complex_Main
begin

section \<open>The number type of the program\<close>

text \<open>
  The posture analysis of \<^verbatim>\<open>src/components/PostureDetector.tsx\<close> computes with
  JavaScript numbers. A number is modelled as an exact real, or one of the three
  exceptional values that the arithmetic of the program produces: a division by zero gives
  an infinity or \<open>NaN\<close>, and \<open>NaN\<close> then spreads through every later operation and
  makes every comparison false.

  What the model leaves out: the rounding of each operation to a 64-bit float, overflow of
  a finite result to an infinity, and the sign of zero. Every divisor of the program is a
  result of \<^verbatim>\<open>Math.abs\<close> or a positive constant, so a zero divisor is \<open>+0\<close> there.

  The properties of the last section are stated so that none of them rests on what is
  left out. They are of three kinds: the value of \<^verbatim>\<open>analyzePosture\<close> on a frame of small
  integer coordinates, where the result stated is the one that the program returns in
  64-bit floats; an equation or an order between results of the program's own
  operations, whatever these compute; and a bound that follows from the order of numbers
  alone. No property asserts the value of an exact formula for the result of the program.
\<close>

datatype number = NaN | NegInf | Fin real | PosInf

fun js_neg :: "number \<Rightarrow> number" where
  "js_neg NaN = NaN"
| "js_neg NegInf = PosInf"
| "js_neg PosInf = NegInf"
| "js_neg (Fin a) = Fin (- a)"

fun js_add :: "number \<Rightarrow> number \<Rightarrow> number" where
  "js_add NaN _ = NaN"
| "js_add _ NaN = NaN"
| "js_add (Fin a) (Fin b) = Fin (a + b)"
| "js_add PosInf NegInf = NaN"
| "js_add NegInf PosInf = NaN"
| "js_add PosInf _ = PosInf"
| "js_add NegInf _ = NegInf"
| "js_add (Fin a) b = b"

definition js_sub :: "number \<Rightarrow> number \<Rightarrow> number" where
  "js_sub a b = js_add a (js_neg b)"

text \<open>The sign of a number other than \<open>NaN\<close>: \<open>-1\<close>, \<open>0\<close> or \<open>1\<close>.\<close>

fun sign_of :: "number \<Rightarrow> real" where
  "sign_of NaN = 0"
| "sign_of NegInf = - 1"
| "sign_of PosInf = 1"
| "sign_of (Fin a) = sgn a"

definition signed_inf :: "real \<Rightarrow> number" where
  "signed_inf s = (if s = 0 then NaN else if 0 < s then PosInf else NegInf)"

fun js_mul :: "number \<Rightarrow> number \<Rightarrow> number" where
  "js_mul NaN _ = NaN"
| "js_mul _ NaN = NaN"
| "js_mul (Fin a) (Fin b) = Fin (a * b)"
| "js_mul a b = signed_inf (sign_of a * sign_of b)"

fun js_div :: "number \<Rightarrow> number \<Rightarrow> number" where
  "js_div NaN _ = NaN"
| "js_div _ NaN = NaN"
| "js_div (Fin a) (Fin b) = (if b = 0 then signed_inf (sgn a) else Fin (a / b))"
| "js_div (Fin a) _ = Fin 0"
| "js_div a (Fin b) = signed_inf (sign_of a * (if b < 0 then - 1 else 1))"
| "js_div _ _ = NaN"

text \<open>The comparisons \<^verbatim>\<open><\<close>, \<^verbatim>\<open>>\<close> and \<^verbatim>\<open><=\<close>: false as soon as one side is \<open>NaN\<close>.\<close>

fun js_lt :: "number \<Rightarrow> number \<Rightarrow> bool" where
  "js_lt NaN _ = False"
| "js_lt _ NaN = False"
| "js_lt (Fin a) (Fin b) = (a < b)"
| "js_lt PosInf _ = False"
| "js_lt _ NegInf = False"
| "js_lt NegInf _ = True"
| "js_lt (Fin a) PosInf = True"

definition js_gt :: "number \<Rightarrow> number \<Rightarrow> bool" where
  "js_gt a b = js_lt b a"

definition js_le :: "number \<Rightarrow> number \<Rightarrow> bool" where
  "js_le a b = (a \<noteq> NaN \<and> b \<noteq> NaN \<and> \<not> js_lt b a)"

subsection \<open>The functions of \<^verbatim>\<open>Math\<close> that the program calls\<close>

definition Math_PI :: number where
  "Math_PI = Fin pi"

fun Math_abs :: "number \<Rightarrow> number" where
  "Math_abs NaN = NaN"
| "Math_abs NegInf = PosInf"
| "Math_abs PosInf = PosInf"
| "Math_abs (Fin a) = Fin \<bar>a\<bar>"

definition Math_max :: "number \<Rightarrow> number \<Rightarrow> number" where
  "Math_max a b = (if a = NaN \<or> b = NaN then NaN else if js_lt a b then b else a)"

definition Math_min :: "number \<Rightarrow> number \<Rightarrow> number" where
  "Math_min a b = (if a = NaN \<or> b = NaN then NaN else if js_lt b a then b else a)"

text \<open>\<^verbatim>\<open>Math.round\<close> is \<open>floor (x + 1/2)\<close>: a tie goes up.\<close>

fun Math_round :: "number \<Rightarrow> number" where
  "Math_round (Fin a) = Fin (of_int \<lfloor>a + 1 / 2\<rfloor>)"
| "Math_round a = a"

text \<open>
  The polar angle of the point \<open>(x, y)\<close>, in \<open>(-pi, pi]\<close>, and \<open>0\<close> at the origin
  as \<^verbatim>\<open>Math.atan2(0, 0)\<close> is.
\<close>

definition atan2_real :: "real \<Rightarrow> real \<Rightarrow> real" where
  "atan2_real y x =
     (if 0 < x then arctan (y / x)
      else if x < 0 then (if 0 \<le> y then arctan (y / x) + pi else arctan (y / x) - pi)
      else if 0 < y then pi / 2
      else if y < 0 then - (pi / 2)
      else 0)"

fun Math_atan2 :: "number \<Rightarrow> number \<Rightarrow> number" where
  "Math_atan2 NaN _ = NaN"
| "Math_atan2 _ NaN = NaN"
| "Math_atan2 (Fin y) (Fin x) = Fin (atan2_real y x)"
| "Math_atan2 PosInf PosInf = Fin (pi / 4)"
| "Math_atan2 PosInf NegInf = Fin (3 * pi / 4)"
| "Math_atan2 PosInf (Fin x) = Fin (pi / 2)"
| "Math_atan2 NegInf PosInf = Fin (- (pi / 4))"
| "Math_atan2 NegInf NegInf = Fin (- (3 * pi / 4))"
| "Math_atan2 NegInf (Fin x) = Fin (- (pi / 2))"
| "Math_atan2 (Fin y) PosInf = Fin 0"
| "Math_atan2 (Fin y) NegInf = Fin (if y < 0 then - pi else pi)"

section \<open>Data\<close>

text \<open>
  A keypoint of the pose-detection library: \<^verbatim>\<open>{x: number, y: number, score?: number,
  name?: string}\<close>. The fields carry the prefix \<open>kp_\<close>. \<open>None\<close> is an absent field.
\<close>

record Keypoint =
  kp_x :: number
  kp_y :: number
  kp_score :: "number option"
  kp_name :: "string option"

datatype color = Success | Warning | Destructive

record PostureStatus =
  score :: number
  message :: string
  color :: color

text \<open>A point \<^verbatim>\<open>{x: number, y: number}\<close>, as \<^verbatim>\<open>calculateAngle\<close> takes it.\<close>

type_synonym point = "number \<times> number"

section \<open>calculateAngle\<close>

definition calculateAngle :: "point \<Rightarrow> point \<Rightarrow> point \<Rightarrow> number" where
  "calculateAngle point1 point2 point3 =
     (let radians = js_sub (Math_atan2 (js_sub (snd point3) (snd point2))
                                       (js_sub (fst point3) (fst point2)))
                           (Math_atan2 (js_sub (snd point1) (snd point2))
                                       (js_sub (fst point1) (fst point2)));
          angle = Math_abs (js_div (js_mul radians (Fin 180)) Math_PI)
      in if js_gt angle (Fin 180) then js_sub (Fin 360) angle else angle)"

section \<open>analyzePosture\<close>

text \<open>\<^verbatim>\<open>Array.prototype.find\<close>: the first element that satisfies the predicate.\<close>

fun array_find :: "('a \<Rightarrow> bool) \<Rightarrow> 'a list \<Rightarrow> 'a option" where
  "array_find p [] = None"
| "array_find p (k # ks) = (if p k then Some k else array_find p ks)"

text \<open>The callback \<^verbatim>\<open>kp => kp.name === n\<close>; an absent name equals no string.\<close>

definition named :: "string \<Rightarrow> Keypoint \<Rightarrow> bool" where
  "named n kp = (kp_name kp = Some n)"

text \<open>
  \<^verbatim>\<open>kp.score! < minConfidence\<close>: the \<^verbatim>\<open>!\<close> only silences the type checker, and
  the comparison turns an absent score (\<^verbatim>\<open>undefined\<close>) into \<open>NaN\<close>.
\<close>

fun to_number :: "number option \<Rightarrow> number" where
  "to_number None = NaN"
| "to_number (Some v) = v"

definition minConfidence :: number where
  "minConfidence = Fin (3 / 10)"

definition low_confidence :: "Keypoint \<Rightarrow> bool" where
  "low_confidence kp = js_lt (to_number (kp_score kp)) minConfidence"

text \<open>Lines 67 to 69, and again 72 to 74 for the hips: \<open>(diff / width) * 100\<close>.\<close>

definition tilt :: "Keypoint \<Rightarrow> Keypoint \<Rightarrow> number" where
  "tilt l r =
     (let diff = Math_abs (js_sub (kp_y l) (kp_y r));
          width = Math_abs (js_sub (kp_x l) (kp_x r))
      in js_mul (js_div diff width) (Fin 100))"

text \<open>Lines 77 and 78: the midpoint of a pair of landmarks.\<close>

definition center :: "Keypoint \<Rightarrow> Keypoint \<Rightarrow> point" where
  "center l r = (js_div (js_add (kp_x l) (kp_x r)) (Fin 2),
                 js_div (js_add (kp_y l) (kp_y r)) (Fin 2))"

text \<open>Line 79.\<close>

definition spineAngle :: "point \<Rightarrow> point \<Rightarrow> number" where
  "spineAngle shoulderCenter hipCenter =
     Math_abs (js_sub (Fin 90)
       (Math_abs (js_div (js_mul (Math_atan2 (js_sub (snd hipCenter) (snd shoulderCenter))
                                             (js_sub (fst hipCenter) (fst shoulderCenter)))
                                 (Fin 180))
                         Math_PI)))"

text \<open>Lines 82 to 86: the penalties and the clamp.\<close>

definition aggregate :: "number \<Rightarrow> number \<Rightarrow> number \<Rightarrow> number" where
  "aggregate shoulderTilt hipTilt spine =
     (let s0 = Fin 100;
          s1 = js_sub s0 (js_mul shoulderTilt (Fin 2));
          s2 = js_sub s1 (js_mul hipTilt (Fin 2));
          s3 = js_sub s2 (js_mul spine (Fin (1 / 2)))
      in Math_max (Fin 0) (Math_min (Fin 100) s3))"

text \<open>Lines 89 to 99: the feedback, on the tilts and the clamped score.\<close>

definition feedback :: "number \<Rightarrow> number \<Rightarrow> number \<Rightarrow> PostureStatus" where
  "feedback shoulderTilt hipTilt sc =
     (if js_gt shoulderTilt (Fin 15) then
        \<lparr>score = Math_round sc, message = ''Straighten your shoulders'', color = Destructive\<rparr>
      else if js_gt hipTilt (Fin 15) then
        \<lparr>score = Math_round sc, message = ''Adjust your sitting posture'', color = Warning\<rparr>
      else if js_gt sc (Fin 80) then
        \<lparr>score = Math_round sc, message = ''Good posture detected!'', color = Success\<rparr>
      else if js_gt sc (Fin 60) then
        \<lparr>score = Math_round sc, message = ''Minor adjustments needed'', color = Warning\<rparr>
      else
        \<lparr>score = Math_round sc, message = ''Poor posture - sit up straight'',
         color = Destructive\<rparr>)"

text \<open>Lines 55 to 99: what \<^verbatim>\<open>analyzePosture\<close> does once the four landmarks are found.\<close>

definition analyzeLandmarks ::
  "Keypoint \<Rightarrow> Keypoint \<Rightarrow> Keypoint \<Rightarrow> Keypoint \<Rightarrow> PostureStatus" where
  "analyzeLandmarks leftShoulder rightShoulder leftHip rightHip =
     (if low_confidence leftShoulder \<or> low_confidence rightShoulder \<or>
         low_confidence leftHip \<or> low_confidence rightHip then
        \<lparr>score = Fin 0, message = ''Move closer or improve lighting'', color = Warning\<rparr>
      else
        let shoulderTilt = tilt leftShoulder rightShoulder;
            hipTilt = tilt leftHip rightHip;
            spine = spineAngle (center leftShoulder rightShoulder) (center leftHip rightHip)
        in feedback shoulderTilt hipTilt (aggregate shoulderTilt hipTilt spine))"

definition analyzePosture :: "Keypoint list \<Rightarrow> PostureStatus" where
  "analyzePosture keypoints =
     (let leftShoulder = array_find (named ''left_shoulder'') keypoints;
          rightShoulder = array_find (named ''right_shoulder'') keypoints;
          leftHip = array_find (named ''left_hip'') keypoints;
          rightHip = array_find (named ''right_hip'') keypoints
      in case (leftShoulder, rightShoulder, leftHip, rightHip) of
           (Some ls, Some rs, Some lh, Some rh) \<Rightarrow> analyzeLandmarks ls rs lh rh
         | _ \<Rightarrow> \<lparr>score = Fin 0, message = ''Position yourself in frame'', color = Warning\<rparr>)"

text \<open>A keypoint with every field present, for concrete inputs.\<close>

definition keypoint :: "string \<Rightarrow> real \<Rightarrow> real \<Rightarrow> real \<Rightarrow> Keypoint" where
  "keypoint n a b c = \<lparr>kp_x = Fin a, kp_y = Fin b, kp_score = Some (Fin c), kp_name = Some n\<rparr>"

section \<open>Notions used to state the properties\<close>

text \<open>The four landmark names that \<^verbatim>\<open>analyzePosture\<close> looks up.\<close>

definition required :: "string list" where
  "required = [''left_shoulder'', ''right_shoulder'', ''left_hip'', ''right_hip'']"

text \<open>Position \<open>i\<close> holds the first keypoint of the sequence whose name is \<open>n\<close>.\<close>

definition first_match :: "string \<Rightarrow> Keypoint list \<Rightarrow> nat \<Rightarrow> bool" where
  "first_match n kps i =
     (i < length kps \<and> kp_name (kps ! i) = Some n \<and> (\<forall>j < i. kp_name (kps ! j) \<noteq> Some n))"

text \<open>The four lookups of lines 46 to 49 succeed, with these results.\<close>

definition found :: "Keypoint list \<Rightarrow> Keypoint \<Rightarrow> Keypoint \<Rightarrow> Keypoint \<Rightarrow> Keypoint \<Rightarrow> bool" where
  "found kps ls rs lh rh =
     (array_find (named ''left_shoulder'') kps = Some ls \<and>
      array_find (named ''right_shoulder'') kps = Some rs \<and>
      array_find (named ''left_hip'') kps = Some lh \<and>
      array_find (named ''right_hip'') kps = Some rh)"

text \<open>The condition of lines 57 to 62 is false: the analysis goes on to the geometry.\<close>

definition passes_gate :: "Keypoint \<Rightarrow> Keypoint \<Rightarrow> Keypoint \<Rightarrow> Keypoint \<Rightarrow> bool" where
  "passes_gate ls rs lh rh =
     (\<not> low_confidence ls \<and> \<not> low_confidence rs \<and> \<not> low_confidence lh \<and> \<not> low_confidence rh)"

text \<open>
  The formulas of lines 37 to 41 and of line 79 as functions of exact reals, from the
  difference of polar angles \<open>rad\<close> and from the vector \<open>(dx, dy)\<close> between the two
  midpoints. The lemmas on them are geometry: they say what the formulas mean, not what
  the floating-point operations of the program return.
\<close>

definition angle_real :: "real \<Rightarrow> real" where
  "angle_real rad = (let a = \<bar>rad * 180 / pi\<bar> in if 180 < a then 360 - a else a)"

definition spine_real :: "real \<Rightarrow> real \<Rightarrow> real" where
  "spine_real dx dy = \<bar>90 - \<bar>atan2_real dy dx * 180 / pi\<bar>\<bar>"

text \<open>
  The interior angle between two vectors, in degrees: the \<open>a\<close> of \<open>[0, 180]\<close> with
  \<open>|u| |w| cos a = u \<cdot> w\<close>. Two vectors other than zero have exactly one; a vector of
  length zero has no direction, and every \<open>a\<close> of the interval qualifies.
\<close>

definition interior_angle :: "real \<times> real \<Rightarrow> real \<times> real \<Rightarrow> real \<Rightarrow> bool" where
  "interior_angle u w a =
     (0 \<le> a \<and> a \<le> 180 \<and>
      sqrt ((fst u)\<^sup>2 + (snd u)\<^sup>2) * sqrt ((fst w)\<^sup>2 + (snd w)\<^sup>2) * cos (a * pi / 180)
        = fst u * fst w + snd u * snd w)"

text \<open>
  The unsigned angle, in degrees, between the vertical and a line of direction
  \<open>(dx, dy)\<close>: its tangent is the horizontal extent over the vertical one, and a
  horizontal line is at 90 degrees. The direction \<open>(0, 0)\<close> counts as horizontal.
\<close>

definition deviation_from_vertical :: "real \<Rightarrow> real \<Rightarrow> real" where
  "deviation_from_vertical dx dy = (if dy = 0 then 90 else arctan (\<bar>dx\<bar> / \<bar>dy\<bar>) * 180 / pi)"







text \<open>The score after the clamp of line 86, before \<^verbatim>\<open>Math.round\<close>.\<close>

definition clamped_score :: "Keypoint \<Rightarrow> Keypoint \<Rightarrow> Keypoint \<Rightarrow> Keypoint \<Rightarrow> number" where
  "clamped_score ls rs lh rh =
     aggregate (tilt ls rs) (tilt lh rh) (spineAngle (center ls rs) (center lh rh))"

text \<open>A number that is neither \<open>NaN\<close> nor negative.\<close>

definition nonneg :: "number \<Rightarrow> bool" where
  "nonneg a = js_le (Fin 0) a"

subsection \<open>Frames\<close>

definition level_frame :: "Keypoint list" where
  "level_frame =
     [keypoint ''nose'' 100 40 (9 / 10),
      keypoint ''left_shoulder'' 80 100 (9 / 10), keypoint ''right_shoulder'' 120 100 (9 / 10),
      keypoint ''left_hip'' 80 200 (9 / 10), keypoint ''right_hip'' 120 200 (9 / 10)]"

definition coincident_shoulders_frame :: "Keypoint list" where
  "coincident_shoulders_frame =
     [keypoint ''left_shoulder'' 100 100 (9 / 10), keypoint ''right_shoulder'' 100 100 (9 / 10),
      keypoint ''left_hip'' 80 200 (9 / 10), keypoint ''right_hip'' 120 200 (9 / 10)]"

definition coincident_hips_frame :: "Keypoint list" where
  "coincident_hips_frame =
     [keypoint ''left_shoulder'' 80 100 (9 / 10), keypoint ''right_shoulder'' 120 100 (9 / 10),
      keypoint ''left_hip'' 100 200 (9 / 10), keypoint ''right_hip'' 100 200 (9 / 10)]"

definition absent_score_frame :: "Keypoint list" where
  "absent_score_frame =
     [\<lparr>kp_x = Fin 80, kp_y = Fin 100, kp_score = None, kp_name = Some ''left_shoulder''\<rparr>,
      keypoint ''right_shoulder'' 120 100 (9 / 10),
      keypoint ''left_hip'' 80 200 (9 / 10), keypoint ''right_hip'' 120 200 (9 / 10)]"

definition low_score_frame :: "Keypoint list" where
  "low_score_frame =
     [keypoint ''left_shoulder'' 80 100 (9 / 10), keypoint ''right_shoulder'' 120 100 (9 / 10),
      keypoint ''left_hip'' 80 200 (1 / 10), keypoint ''right_hip'' 120 200 (9 / 10)]"

definition tilted_shoulders_frame :: "Keypoint list" where
  "tilted_shoulders_frame =
     [keypoint ''left_shoulder'' 0 0 (9 / 10), keypoint ''right_shoulder'' 100 20 (9 / 10),
      keypoint ''left_hip'' 0 100 (9 / 10), keypoint ''right_hip'' 100 100 (9 / 10)]"

definition leaning_frame :: "Keypoint list" where
  "leaning_frame =
     [keypoint ''left_shoulder'' 0 0 (9 / 10), keypoint ''right_shoulder'' 100 0 (9 / 10),
      keypoint ''left_hip'' 100 100 (9 / 10), keypoint ''right_hip'' 200 100 (9 / 10)]"

definition no_hip_frame :: "Keypoint list" where
  "no_hip_frame =
     [keypoint ''left_shoulder'' 80 100 (9 / 10), keypoint ''right_shoulder'' 120 100 (9 / 10),
      keypoint ''left_hip'' 80 200 (9 / 10), keypoint ''right_knee'' 120 300 (9 / 10)]"

definition duplicates_frame :: "Keypoint list" where
  "duplicates_frame =
     [keypoint ''left_shoulder'' 0 0 (9 / 10), keypoint ''left_shoulder'' 50 50 (9 / 10),
      keypoint ''right_shoulder'' 100 20 (9 / 10),
      keypoint ''left_hip'' 0 100 (9 / 10), keypoint ''right_hip'' 100 100 (9 / 10),
      keypoint ''right_hip'' 0 0 (1 / 10)]"

definition tilted_hips_frame :: "Keypoint list" where
  "tilted_hips_frame =
     [keypoint ''left_shoulder'' 0 0 (9 / 10), keypoint ''right_shoulder'' 100 0 (9 / 10),
      keypoint ''left_hip'' 0 100 (9 / 10), keypoint ''right_hip'' 100 120 (9 / 10)]"

definition slouched_frame :: "Keypoint list" where
  "slouched_frame =
     [keypoint ''left_shoulder'' 0 0 (9 / 10), keypoint ''right_shoulder'' 100 10 (9 / 10),
      keypoint ''left_hip'' 0 100 (9 / 10), keypoint ''right_hip'' 100 110 (9 / 10)]"

definition rounded_down_frame :: "Keypoint list" where
  "rounded_down_frame =
     [keypoint ''left_shoulder'' 0 0 (9 / 10), keypoint ''right_shoulder'' 1000 98 (9 / 10),
      keypoint ''left_hip'' 0 500 (9 / 10), keypoint ''right_hip'' 1000 500 (9 / 10)]"

section \<open>Lemmas\<close>

subsection \<open>Lookup\<close>

lemma find_none: "array_find p ks = None \<longleftrightarrow> (\<forall>k \<in> set ks. \<not> p k)"
  by (induction ks) auto

lemma find_first:
  "array_find p ks = Some k \<Longrightarrow> \<exists>i < length ks. ks ! i = k \<and> p k \<and> (\<forall>j < i. \<not> p (ks ! j))"
proof (induction ks)
  case Nil
  then show ?case by simp
next
  case (Cons a ks)
  show ?case
  proof (cases "p a")
    case True
    with Cons.prems have "a = k" by simp
    with True have "0 < length (a # ks) \<and> (a # ks) ! 0 = k \<and> p k \<and> (\<forall>j < 0. \<not> p ((a # ks) ! j))"
      by simp
    then show ?thesis by blast
  next
    case False
    with Cons.prems have "array_find p ks = Some k" by simp
    from Cons.IH [OF this] obtain i where i: "i < length ks" "ks ! i = k" "p k" "\<forall>j < i. \<not> p (ks ! j)"
      by blast
    have "\<forall>j < Suc i. \<not> p ((a # ks) ! j)"
    proof (intro allI impI)
      fix j assume "j < Suc i"
      then show "\<not> p ((a # ks) ! j)" using False i(4) by (cases j) auto
    qed
    with i have "Suc i < length (a # ks) \<and> (a # ks) ! Suc i = k \<and> p k \<and> (\<forall>j < Suc i. \<not> p ((a # ks) ! j))"
      by simp
    then show ?thesis by blast
  qed
qed

lemma find_some_iff: "(\<exists>k. array_find p ks = Some k) \<longleftrightarrow> (\<exists>k \<in> set ks. p k)"
  using find_none [of p ks] by (cases "array_find p ks") auto

subsection \<open>The angle formulas on exact reals\<close>

text \<open>
  Geometry of the two formulas: the difference of polar angles, reflected at 180 degrees,
  is the interior angle between the two rays, and the expression of line 79 is the angle
  between the spine and the vertical.
\<close>

lemma atan2_real_bounds: "- pi < atan2_real y x \<and> atan2_real y x \<le> pi"
proof -
  have b: "- (pi / 2) < arctan (y / x)" "arctan (y / x) < pi / 2"
    by (rule arctan_lbound, rule arctan_ubound)
  consider "0 < x" | "x < 0" "0 \<le> y" | "x < 0" "y < 0" | "x = 0" by linarith
  then show ?thesis
  proof cases
    case 1
    then have "atan2_real y x = arctan (y / x)" by (simp add: atan2_real_def)
    then show ?thesis using b pi_gt_zero by linarith
  next
    case 2
    then have "y / x \<le> 0" by (simp add: divide_nonneg_neg)
    then have "arctan (y / x) \<le> 0" using arctan_le_zero_iff by blast 
    moreover have "atan2_real y x = arctan (y / x) + pi" using 2 by (simp add: atan2_real_def)
    ultimately show ?thesis using b pi_gt_zero by linarith
  next
    case 3
    then have "0 < y / x" by (simp add: divide_neg_neg)
    then have "0 < arctan (y / x)" using zero_less_arctan_iff by blast
    moreover have "atan2_real y x = arctan (y / x) - pi" using 3 by (simp add: atan2_real_def)
    ultimately show ?thesis using b pi_gt_zero by linarith
  next
    case 4
    then have "atan2_real y x = pi / 2 \<or> atan2_real y x = - (pi / 2) \<or> atan2_real y x = 0"
      by (simp add: atan2_real_def)
    then show ?thesis using pi_gt_zero by linarith
  qed
qed

lemma sqrt_sum_pos: "0 < x \<Longrightarrow> sqrt (x\<^sup>2 + y\<^sup>2) = x * sqrt (1 + (y / x)\<^sup>2)"
proof -
  assume x: "0 < x"
  have "x\<^sup>2 + y\<^sup>2 = x\<^sup>2 * (1 + (y / x)\<^sup>2)" using x by (simp add: field_simps power2_eq_square)
  then have "sqrt (x\<^sup>2 + y\<^sup>2) = sqrt (x\<^sup>2) * sqrt (1 + (y / x)\<^sup>2)" by (simp add: real_sqrt_mult)
  with x show ?thesis by simp
qed

lemma polar_pos:
  assumes x: "0 < x"
  shows "sqrt (x\<^sup>2 + y\<^sup>2) * cos (arctan (y / x)) = x" "sqrt (x\<^sup>2 + y\<^sup>2) * sin (arctan (y / x)) = y"
proof -
  have p: "0 < sqrt (1 + (y / x)\<^sup>2)" by (simp add: add_pos_nonneg)
  show "sqrt (x\<^sup>2 + y\<^sup>2) * cos (arctan (y / x)) = x"
    using p by (simp add: sqrt_sum_pos [OF x] cos_arctan)
  show "sqrt (x\<^sup>2 + y\<^sup>2) * sin (arctan (y / x)) = y"
    using p x by (simp add: sqrt_sum_pos [OF x] sin_arctan)
qed

lemma polar_neg:
  assumes x: "x < 0"
  shows "sqrt (x\<^sup>2 + y\<^sup>2) * cos (arctan (y / x)) = - x" "sqrt (x\<^sup>2 + y\<^sup>2) * sin (arctan (y / x)) = - y"
  using polar_pos [of "- x" "- y"] x by simp_all

lemma atan2_real_polar:
  "sqrt (x\<^sup>2 + y\<^sup>2) * cos (atan2_real y x) = x \<and> sqrt (x\<^sup>2 + y\<^sup>2) * sin (atan2_real y x) = y"
proof -
  consider "0 < x" | "x < 0" | "x = 0" by linarith
  then show ?thesis
  proof cases
    case 1
    then show ?thesis by (simp add: atan2_real_def polar_pos)
  next
    case 2
    then show ?thesis using polar_neg [OF 2, of y] by (simp add: atan2_real_def)
  next
    case 3
    then show ?thesis by (simp add: atan2_real_def)
  qed
qed

lemma angle_real_range:
  assumes "- (2 * pi) < r" "r < 2 * pi"
  shows "0 \<le> angle_real r \<and> angle_real r \<le> 180"
proof -
  have "\<bar>r\<bar> < 2 * pi" using assms by linarith
  then have "\<bar>r\<bar> * 180 < 360 * pi" by linarith
  then have "\<bar>r\<bar> * 180 / pi < 360" using pi_gt_zero by (simp add: pos_divide_less_eq)
  moreover have "\<bar>r * 180 / pi\<bar> = \<bar>r\<bar> * 180 / pi" using pi_gt_zero by (simp add: abs_mult)
  ultimately have "\<bar>r * 180 / pi\<bar> < 360" by simp
  then show ?thesis by (auto simp: angle_real_def Let_def)
qed

lemma cos_angle_real: "cos (angle_real r * pi / 180) = cos r"
proof -
  have a: "\<bar>r * 180 / pi\<bar> = \<bar>r\<bar> * 180 / pi" using pi_gt_zero by (simp add: abs_mult)
  have b: "\<bar>r\<bar> * 180 / pi * pi / 180 = \<bar>r\<bar>" using pi_gt_zero by simp
  show ?thesis
  proof (cases "180 < \<bar>r * 180 / pi\<bar>")
    case True
    then have "angle_real r = 360 - \<bar>r\<bar> * 180 / pi"
      unfolding angle_real_def Let_def a by simp
    then have "angle_real r * pi / 180 = (360 - \<bar>r\<bar> * 180 / pi) * pi / 180" by simp
    also have "\<dots> = 2 * pi - \<bar>r\<bar> * 180 / pi * pi / 180" by (simp add: algebra_simps diff_divide_distrib)
    also have "\<dots> = 2 * pi - \<bar>r\<bar>" using b by simp
    finally have e: "angle_real r * pi / 180 = 2 * pi - \<bar>r\<bar>" .
    have "cos (angle_real r * pi / 180) = cos (2 * pi - \<bar>r\<bar>)" by (simp only: e)
    also have "\<dots> = cos \<bar>r\<bar>" by (simp add: cos_diff)
    finally show ?thesis by (simp add: cos_abs_real)
  next
    case False
    then have "angle_real r = \<bar>r\<bar> * 180 / pi"
      unfolding angle_real_def Let_def a by simp
    then have e: "angle_real r * pi / 180 = \<bar>r\<bar>" using b by simp
    show ?thesis by (simp only: e cos_abs_real)
  qed
qed

lemma dot_polar:
  fixes ux uy wx wy :: real
  shows "sqrt (ux\<^sup>2 + uy\<^sup>2) * sqrt (wx\<^sup>2 + wy\<^sup>2) * cos (atan2_real wy wx - atan2_real uy ux)
           = ux * wx + uy * wy"
proof -
  define ru where "ru = sqrt (ux\<^sup>2 + uy\<^sup>2)"
  define rw where "rw = sqrt (wx\<^sup>2 + wy\<^sup>2)"
  define tu where "tu = atan2_real uy ux"
  define tw where "tw = atan2_real wy wx"
  have u: "ru * cos tu = ux" "ru * sin tu = uy"
    using atan2_real_polar [of ux uy] by (simp_all add: ru_def tu_def)
  have w: "rw * cos tw = wx" "rw * sin tw = wy"
    using atan2_real_polar [of wx wy] by (simp_all add: rw_def tw_def)
  have "ru * rw * cos (tw - tu) = (ru * cos tu) * (rw * cos tw) + (ru * sin tu) * (rw * sin tw)"
    by (simp add: cos_diff algebra_simps)
  also have "\<dots> = ux * wx + uy * wy" by (simp only: u w)
  finally show ?thesis by (simp add: ru_def rw_def tu_def tw_def)
qed

lemma interior_angle_real:
  "interior_angle (ux, uy) (wx, wy) (angle_real (atan2_real wy wx - atan2_real uy ux))"
proof -
  have "- (2 * pi) < atan2_real wy wx - atan2_real uy ux" "atan2_real wy wx - atan2_real uy ux < 2 * pi"
    using atan2_real_bounds [of wy wx] atan2_real_bounds [of uy ux] by linarith+
  from angle_real_range [OF this] show ?thesis
    by (simp add: interior_angle_def cos_angle_real dot_polar)
qed

lemma degrees_eq:
  assumes "0 \<le> a" "a \<le> 180" "0 \<le> d" "d \<le> 180" "cos (a * pi / 180) = cos (d * pi / 180)"
  shows "a = d"
proof -
  have l: "0 \<le> a * pi / 180" "0 \<le> d * pi / 180" using assms pi_gt_zero by simp_all
  have "a * pi \<le> 180 * pi" "d * pi \<le> 180 * pi"
    using assms pi_gt_zero by (simp_all add: mult_right_mono)
  then have u: "a * pi / 180 \<le> pi" "d * pi / 180 \<le> pi" by simp_all
  from cos_inj_pi [OF l(1) u(1) l(2) u(2) assms(5)] show ?thesis using pi_gt_zero by simp
qed

lemma interior_angle_perpendicular:
  assumes "interior_angle (ux, uy) (wx, wy) a" "ux * wx + uy * wy = 0"
    and "ux \<noteq> 0 \<or> uy \<noteq> 0" "wx \<noteq> 0 \<or> wy \<noteq> 0"
  shows "a = 90"
proof -
  have "sqrt (ux\<^sup>2 + uy\<^sup>2) \<noteq> 0" "sqrt (wx\<^sup>2 + wy\<^sup>2) \<noteq> 0"
    using assms(3,4) by (auto simp: sum_power2_eq_zero_iff)
  moreover have "sqrt (ux\<^sup>2 + uy\<^sup>2) * sqrt (wx\<^sup>2 + wy\<^sup>2) * cos (a * pi / 180) = 0"
    using assms(1,2) by (simp add: interior_angle_def)
  ultimately have "cos (a * pi / 180) = 0" using mult_eq_0_iff by blast
  then have "cos (a * pi / 180) = cos (90 * pi / 180)" by simp
  with assms(1) show ?thesis by (simp add: interior_angle_def degrees_eq [where d = 90])
qed

lemma interior_angle_opposite:
  assumes "interior_angle (ux, uy) (wx, wy) a" "0 < t" "wx = - t * ux" "wy = - t * uy"
    and "ux \<noteq> 0 \<or> uy \<noteq> 0"
  shows "a = 180"
proof -
  define r where "r = sqrt (ux\<^sup>2 + uy\<^sup>2)"
  have r: "r \<noteq> 0" "0 \<le> r" using assms(5) by (auto simp: r_def sum_power2_eq_zero_iff)
  have rr: "r * r = ux\<^sup>2 + uy\<^sup>2" by (simp add: r_def)
  have "wx\<^sup>2 + wy\<^sup>2 = t\<^sup>2 * (ux\<^sup>2 + uy\<^sup>2)" by (simp add: assms(3,4) power2_eq_square algebra_simps)
  then have "sqrt (wx\<^sup>2 + wy\<^sup>2) = t * r" using assms(2) by (simp add: r_def real_sqrt_mult)
  then have "r * (t * r) * cos (a * pi / 180) = ux * wx + uy * wy"
    using assms(1) by (simp add: interior_angle_def r_def)
  also have "\<dots> = - t * (ux\<^sup>2 + uy\<^sup>2)" by (simp add: assms(3,4) power2_eq_square algebra_simps)
  also have "\<dots> = - t * (r * r)" by (simp only: rr)
  finally have "(t * (r * r)) * cos (a * pi / 180) = (t * (r * r)) * (- 1)" by (simp add: algebra_simps)
  moreover have "t * (r * r) \<noteq> 0" using r assms(2) by simp
  ultimately have "cos (a * pi / 180) = - 1" using mult_left_cancel by blast
  then have "cos (a * pi / 180) = cos (180 * pi / 180)" by simp
  with assms(1) show ?thesis by (simp add: interior_angle_def degrees_eq [where d = 180])
qed

lemma abs_atan2_real: "\<bar>atan2_real y x\<bar> = atan2_real \<bar>y\<bar> x"
proof -
  have b: "- (pi / 2) < arctan (y / x)" "arctan (y / x) < pi / 2"
    by (rule arctan_lbound, rule arctan_ubound)
  consider "0 \<le> y" "0 < x" | "0 \<le> y" "x < 0" | "0 \<le> y" "x = 0" | "y < 0" "0 < x" | "y < 0" "x < 0" | "y < 0" "x = 0" by linarith
  then show ?thesis
  proof cases
    case 1
    then have "0 \<le> arctan (y / x)" by (simp add: zero_le_arctan_iff)
    with 1 show ?thesis by (simp add: atan2_real_def)
  next
    case 2
    then have "atan2_real y x = arctan (y / x) + pi" by (simp add: atan2_real_def)
    with 2 b show ?thesis by simp
  next
    case 3
    then have "0 \<le> atan2_real y x" using pi_gt_zero by (simp add: atan2_real_def)
    with 3 show ?thesis by simp
  next
    case 4
    then have "y / x < 0" by (simp add: divide_neg_pos)
    then have "arctan (y / x) < 0" by (simp add: arctan_less_zero_iff)
    moreover have "arctan (\<bar>y\<bar> / x) = - arctan (y / x)" using 4 by (simp add: arctan_minus [symmetric])
    ultimately show ?thesis using 4 by (simp add: atan2_real_def)
  next
    case 5
    then have "0 < y / x" by (simp add: divide_neg_neg)
    then have p: "0 < arctan (y / x)" by (simp add: zero_less_arctan_iff)
    have m: "arctan (\<bar>y\<bar> / x) = - arctan (y / x)" using 5 by (simp add: arctan_minus [symmetric])
    have "atan2_real y x = arctan (y / x) - pi" using 5 by (simp add: atan2_real_def)
    moreover have "atan2_real \<bar>y\<bar> x = - arctan (y / x) + pi" using 5 m by (simp add: atan2_real_def)
    moreover have "\<bar>arctan (y / x) - pi\<bar> = - (arctan (y / x) - pi)"
      using b pi_gt_zero by (intro abs_of_neg) linarith
    ultimately show ?thesis by linarith
  next
    case 6
    then have "atan2_real y x = - (pi / 2)" "atan2_real \<bar>y\<bar> x = pi / 2" by (simp_all add: atan2_real_def)
    then show ?thesis by simp
  qed
qed

lemma arctan_complement:
  assumes "0 < a" "0 < b"
  shows "pi / 2 - arctan (a / b) = arctan (b / a)"
proof -
  have p: "0 < a / b" using assms by simp
  then have "a / b \<noteq> 0" by (rule less_imp_neq [THEN not_sym])
  from arctan_inverse [OF this]
  have "arctan (1 / (a / b)) = sgn (a / b) * pi / 2 - arctan (a / b)" .
  moreover have "sgn (a / b) = 1" using p by (simp only: sgn_pos)
  moreover have "1 / (a / b) = b / a" by simp
  ultimately show ?thesis by simp
qed

lemma spine_radians:
  "\<bar>pi / 2 - atan2_real \<bar>dy\<bar> dx\<bar> = (if dy = 0 then pi / 2 else arctan (\<bar>dx\<bar> / \<bar>dy\<bar>))"
proof -
  have b: "- (pi / 2) < arctan (\<bar>dy\<bar> / dx)" "arctan (\<bar>dy\<bar> / dx) < pi / 2"
    by (rule arctan_lbound, rule arctan_ubound)
  consider "dy = 0" "0 < dx" | "dy = 0" "dx < 0" | "dy = 0" "dx = 0"
    | "dy \<noteq> 0" "0 < dx" | "dy \<noteq> 0" "dx < 0" | "dy \<noteq> 0" "dx = 0" by linarith
  then show ?thesis
  proof cases
    case 1
    then show ?thesis using pi_gt_zero by (simp add: atan2_real_def)
  next
    case 2
    then show ?thesis using pi_gt_zero by (simp add: atan2_real_def)
  next
    case 3
    then show ?thesis using pi_gt_zero by (simp add: atan2_real_def)
  next
    case 4
    then have c: "pi / 2 - arctan (\<bar>dy\<bar> / dx) = arctan (dx / \<bar>dy\<bar>)"
      by (simp add: arctan_complement)
    have "atan2_real \<bar>dy\<bar> dx = arctan (\<bar>dy\<bar> / dx)" using 4 by (simp add: atan2_real_def)
    then have "\<bar>pi / 2 - atan2_real \<bar>dy\<bar> dx\<bar> = pi / 2 - arctan (\<bar>dy\<bar> / dx)" using b by simp
    with c 4 show ?thesis by simp
  next
    case 5
    then have c: "pi / 2 - arctan (\<bar>dy\<bar> / (- dx)) = arctan ((- dx) / \<bar>dy\<bar>)"
      by (intro arctan_complement) simp_all
    have m: "arctan (\<bar>dy\<bar> / (- dx)) = - arctan (\<bar>dy\<bar> / dx)" by (simp add: arctan_minus [symmetric])
    have "atan2_real \<bar>dy\<bar> dx = arctan (\<bar>dy\<bar> / dx) + pi" using 5 by (simp add: atan2_real_def)
    then have "\<bar>pi / 2 - atan2_real \<bar>dy\<bar> dx\<bar> = pi / 2 + arctan (\<bar>dy\<bar> / dx)" using b by simp
    also have "\<dots> = arctan ((- dx) / \<bar>dy\<bar>)" using c m by simp
    finally show ?thesis using 5 by simp
  next
    case 6
    then show ?thesis by (simp add: atan2_real_def)
  qed
qed

lemma spine_real_deviation: "spine_real dx dy = deviation_from_vertical dx dy"
proof -
  define t where "t = atan2_real \<bar>dy\<bar> dx"
  have k: "0 < 180 / pi" using pi_gt_zero by simp
  have "\<bar>atan2_real dy dx * 180 / pi\<bar> = \<bar>atan2_real dy dx\<bar> * (180 / pi)"
    using k by (simp add: abs_mult)
  then have d: "\<bar>atan2_real dy dx * 180 / pi\<bar> = t * (180 / pi)"
    by (simp only: abs_atan2_real t_def)
  have "90 - t * (180 / pi) = (pi / 2 - t) * (180 / pi)"
    using pi_gt_zero by (simp add: field_simps)
  then have "\<bar>90 - t * (180 / pi)\<bar> = \<bar>pi / 2 - t\<bar> * \<bar>180 / pi\<bar>"
    by (simp only: abs_mult)
  also have "\<bar>180 / pi\<bar> = 180 / pi" using k by (rule abs_of_pos)
  finally have "spine_real dx dy = \<bar>pi / 2 - t\<bar> * (180 / pi)"
    by (simp only: spine_real_def d)
  also have "\<bar>pi / 2 - t\<bar> = (if dy = 0 then pi / 2 else arctan (\<bar>dx\<bar> / \<bar>dy\<bar>))"
    unfolding t_def by (rule spine_radians)
  finally show ?thesis using pi_gt_zero by (simp add: deviation_from_vertical_def)
qed

subsection \<open>The steps of analyzePosture\<close>

lemmas frame_defs = keypoint_def named_def low_confidence_def minConfidence_def
lemmas geometry_defs = tilt_def center_def spineAngle_def aggregate_def feedback_def js_sub_def
  js_gt_def Math_max_def Math_min_def Math_PI_def atan2_real_def signed_inf_def

lemma feedback_score: "score (feedback a b sc) = Math_round sc"
  by (simp add: feedback_def)

lemma aggregate_Fin:
  "aggregate (Fin a) (Fin b) (Fin c) = Fin (max 0 (min 100 (100 - a * 2 - b * 2 - c * (1 / 2))))"
  by (simp add: aggregate_def js_sub_def Math_max_def Math_min_def Let_def max_def min_def)

lemma analyzePosture_found:
  "found kps ls rs lh rh \<Longrightarrow> analyzePosture kps = analyzeLandmarks ls rs lh rh"
  by (simp add: found_def analyzePosture_def)

lemma analyzeLandmarks_passes:
  "passes_gate ls rs lh rh \<Longrightarrow>
     analyzeLandmarks ls rs lh rh = feedback (tilt ls rs) (tilt lh rh) (clamped_score ls rs lh rh)"
  by (simp add: passes_gate_def analyzeLandmarks_def clamped_score_def Let_def)

lemma first_match_find:
  assumes "\<exists>k \<in> set kps. kp_name k = Some n"
  shows "\<exists>i. first_match n kps i \<and> array_find (named n) kps = Some (kps ! i)"
proof -
  from assms have "\<exists>k \<in> set kps. named n k" by (simp add: named_def)
  then obtain k where k: "array_find (named n) kps = Some k"
    using find_some_iff [of "named n" kps] by blast
  from find_first [OF k] k show ?thesis
    by (auto simp: named_def first_match_def)
qed

lemma first_match_unique: "first_match n kps i \<Longrightarrow> first_match n kps j \<Longrightarrow> i = j"
  unfolding first_match_def by (meson linorder_neqE_nat)

lemma tilt_value:
  "tilt (keypoint n a b c) (keypoint n' a' b' c') =
     (if a = a' then (if b = b' then NaN else PosInf) else Fin (\<bar>b - b'\<bar> / \<bar>a - a'\<bar> * 100))"
  by (simp add: tilt_def keypoint_def js_sub_def signed_inf_def)

subsection \<open>The clamped score on all numbers\<close>

lemma nonneg_cases: "nonneg a \<longleftrightarrow> a = PosInf \<or> (\<exists>r. a = Fin r \<and> 0 \<le> r)"
  by (cases a) (auto simp: nonneg_def js_le_def)

lemma js_le_Fin: "js_le (Fin a) (Fin b) \<longleftrightarrow> a \<le> b"
  by (auto simp: js_le_def)

lemma js_le_to_Fin: "js_le a (Fin r') \<Longrightarrow> nonneg a \<Longrightarrow> \<exists>r. a = Fin r \<and> 0 \<le> r \<and> r \<le> r'"
  by (cases a) (auto simp: nonneg_def js_le_def)

lemma aggregate_NaN: "aggregate a NaN c = NaN" "aggregate a b NaN = NaN"
  by (cases a; cases b; cases c; simp add: aggregate_def js_sub_def Math_max_def Math_min_def signed_inf_def)+

lemma aggregate_PosInf:
  assumes "nonneg a" "nonneg b"
  shows "aggregate PosInf a b = Fin 0" "aggregate a PosInf b = Fin 0" "aggregate a b PosInf = Fin 0"
  using assms unfolding nonneg_cases
  by (auto simp: aggregate_def js_sub_def Math_max_def Math_min_def signed_inf_def)

lemma aggregate_range:
  assumes "nonneg a" "nonneg b" "nonneg c"
  shows "\<exists>v. aggregate a b c = Fin v \<and> 0 \<le> v \<and> v \<le> 100"
proof (cases "a = PosInf \<or> b = PosInf \<or> c = PosInf")
  case True
  then have "aggregate a b c = Fin 0" using assms by (auto simp: aggregate_PosInf)
  then show ?thesis by simp
next
  case False
  with assms obtain ra rb rc where "a = Fin ra" "b = Fin rb" "c = Fin rc"
    unfolding nonneg_cases by blast
  then show ?thesis by (simp add: aggregate_Fin)
qed

lemma aggregate_mono:
  assumes "nonneg a" "nonneg b" "nonneg c" "nonneg a'" "nonneg b'" "nonneg c'"
    and "js_le a a'" "js_le b b'" "js_le c c'"
  shows "js_le (aggregate a' b' c') (aggregate a b c)"
proof (cases "a' = PosInf \<or> b' = PosInf \<or> c' = PosInf")
  case True
  then have "aggregate a' b' c' = Fin 0" using assms(4-6) by (auto simp: aggregate_PosInf)
  moreover from aggregate_range [OF assms(1-3)] obtain v where "aggregate a b c = Fin v" "0 \<le> v"
    by blast
  ultimately show ?thesis by (simp add: js_le_Fin)
next
  case False
  with assms(4-6) obtain ra' rb' rc' where p: "a' = Fin ra'" "b' = Fin rb'" "c' = Fin rc'"
    unfolding nonneg_cases by blast
  from js_le_to_Fin [OF assms(7) [unfolded p] assms(1)] obtain ra where a: "a = Fin ra" "ra \<le> ra'"
    by blast
  from js_le_to_Fin [OF assms(8) [unfolded p] assms(2)] obtain rb where b: "b = Fin rb" "rb \<le> rb'"
    by blast
  from js_le_to_Fin [OF assms(9) [unfolded p] assms(3)] obtain rc where c: "c = Fin rc" "rc \<le> rc'"
    by blast
  have "100 - ra' * 2 - rb' * 2 - rc' * (1 / 2) \<le> 100 - ra * 2 - rb * 2 - rc * (1 / 2)"
    using a(2) b(2) c(2) by simp
  then have "max 0 (min 100 (100 - ra' * 2 - rb' * 2 - rc' * (1 / 2)))
           \<le> max 0 (min 100 (100 - ra * 2 - rb * 2 - rc * (1 / 2)))"
    by (intro max.mono min.mono) simp_all
  then show ?thesis by (simp add: p a b c aggregate_Fin js_le_Fin)
qed

lemma js_le_refl: "nonneg a \<Longrightarrow> js_le a a"
  by (cases a) (auto simp: nonneg_def js_le_def)

subsection \<open>Evaluation on frames\<close>

lemma analyzePosture_feedback:
  assumes "found kps ls rs lh rh" and "passes_gate ls rs lh rh"
  shows "analyzePosture kps = feedback (tilt ls rs) (tilt lh rh) (clamped_score ls rs lh rh)"
  using analyzePosture_found [OF assms(1)] analyzeLandmarks_passes [OF assms(2)] by simp

lemma found_frame:
  "n1 = ''left_shoulder'' \<Longrightarrow> n2 = ''right_shoulder'' \<Longrightarrow> n3 = ''left_hip'' \<Longrightarrow> n4 = ''right_hip'' \<Longrightarrow>
   found [keypoint n1 a1 b1 c1, keypoint n2 a2 b2 c2, keypoint n3 a3 b3 c3, keypoint n4 a4 b4 c4]
     (keypoint n1 a1 b1 c1) (keypoint n2 a2 b2 c2) (keypoint n3 a3 b3 c3) (keypoint n4 a4 b4 c4)"
  by (simp add: found_def keypoint_def named_def)

lemma passes_gate_frame:
  "3 / 10 \<le> c1 \<Longrightarrow> 3 / 10 \<le> c2 \<Longrightarrow> 3 / 10 \<le> c3 \<Longrightarrow> 3 / 10 \<le> c4 \<Longrightarrow>
   passes_gate (keypoint n1 a1 b1 c1) (keypoint n2 a2 b2 c2) (keypoint n3 a3 b3 c3) (keypoint n4 a4 b4 c4)"
  by (simp add: passes_gate_def low_confidence_def minConfidence_def keypoint_def)

lemma spineAngle_vertical:
  assumes "a1 + a2 = a3 + a4" and "b1 + b2 \<noteq> b3 + b4"
  shows "spineAngle (center (keypoint n1 a1 b1 c1) (keypoint n2 a2 b2 c2))
     (center (keypoint n3 a3 b3 c3) (keypoint n4 a4 b4 c4)) = Fin 0"
proof -
  have dx: "(a3 + a4) / 2 - (a1 + a2) / 2 = 0" using assms(1) by simp
  have dy: "(b3 + b4) / 2 - (b1 + b2) / 2 \<noteq> 0" using assms(2) by simp
  have e: "atan2_real ((b3 + b4) / 2 - (b1 + b2) / 2) 0 = pi / 2 \<or>
        atan2_real ((b3 + b4) / 2 - (b1 + b2) / 2) 0 = - (pi / 2)"
    using dy by (simp add: atan2_real_def)
  have "\<bar>atan2_real ((b3 + b4) / 2 - (b1 + b2) / 2) 0 * 180 / pi\<bar> = 90"
  proof (rule disjE [OF e])
    assume u: "atan2_real ((b3 + b4) / 2 - (b1 + b2) / 2) 0 = pi / 2"
    show ?thesis unfolding u using pi_gt_zero by simp
  next
    assume d: "atan2_real ((b3 + b4) / 2 - (b1 + b2) / 2) 0 = - (pi / 2)"
    show ?thesis unfolding d using pi_gt_zero by simp
  qed
  then show ?thesis
    by (simp add: spineAngle_def center_def keypoint_def js_sub_def Math_PI_def dx
        del: abs_divide)
qed

lemma spineAngle_diagonal:
  assumes "0 < d" and "(a3 + a4) / 2 - (a1 + a2) / 2 = d" and "(b3 + b4) / 2 - (b1 + b2) / 2 = d"
  shows "spineAngle (center (keypoint n1 a1 b1 c1) (keypoint n2 a2 b2 c2))
     (center (keypoint n3 a3 b3 c3) (keypoint n4 a4 b4 c4)) = Fin 45"
proof -
  have q: "atan2_real d d = pi / 4" using assms(1) by (simp add: atan2_real_def arctan_one)
  have "atan2_real d d * 180 / pi = 45" unfolding q using pi_gt_zero by simp
  then show ?thesis
    by (simp add: spineAngle_def center_def keypoint_def js_sub_def Math_PI_def assms(2,3))
qed

subsection \<open>Score and feedback on all numbers\<close>

lemma Math_abs_range: "Math_abs a = NaN \<or> nonneg (Math_abs a)"
  by (cases a) (simp_all add: nonneg_def js_le_def)

lemma tilt_range: "tilt l r = NaN \<or> nonneg (tilt l r)"
proof -
  have "js_mul (js_div (Math_abs u) (Math_abs w)) (Fin 100) = NaN \<or>
        nonneg (js_mul (js_div (Math_abs u) (Math_abs w)) (Fin 100))" for u w
    by (cases u; cases w) (auto simp: nonneg_def js_le_def signed_inf_def sgn_if not_less)
  then show ?thesis by (simp add: tilt_def Let_def)
qed

lemma spineAngle_range: "spineAngle s h = NaN \<or> nonneg (spineAngle s h)"
  unfolding spineAngle_def by (rule Math_abs_range)

lemma js_gt_cases: "js_gt a (Fin r) \<longleftrightarrow> a = PosInf \<or> (\<exists>v. a = Fin v \<and> r < v)"
  by (cases a) (simp_all add: js_gt_def)

lemma aggregate_tilted:
  assumes "js_gt a (Fin 15)" and "b = NaN \<or> nonneg b" and "c = NaN \<or> nonneg c"
  shows "aggregate a b c = NaN \<or> (\<exists>v. aggregate a b c = Fin v \<and> v \<le> 70)"
proof (cases "b = NaN \<or> c = NaN")
  case True
  then show ?thesis by (auto simp: aggregate_NaN)
next
  case False
  with assms have n: "nonneg b" "nonneg c" by simp_all
  have na: "nonneg a" using assms(1) by (auto simp: js_gt_cases nonneg_cases)
  show ?thesis
  proof (cases "a = PosInf \<or> b = PosInf \<or> c = PosInf")
    case True
    then have "aggregate a b c = Fin 0" using n na by (auto simp: aggregate_PosInf)
    then show ?thesis by simp
  next
    case False
    with n assms(1) obtain ra rb rc where
      v: "a = Fin ra" "15 < ra" "b = Fin rb" "0 \<le> rb" "c = Fin rc" "0 \<le> rc"
      unfolding nonneg_cases js_gt_cases by blast
    have "100 - ra * 2 - rb * 2 - rc * (1 / 2) \<le> 70" using v by simp
    then have "max 0 (min 100 (100 - ra * 2 - rb * 2 - rc * (1 / 2))) \<le> 70" by simp
    then show ?thesis by (simp add: v aggregate_Fin)
  qed
qed

lemma aggregate_NaN_first: "aggregate NaN b c = NaN"
  by (simp add: aggregate_def js_sub_def Math_max_def Math_min_def)

lemma aggregate_override:
  assumes "js_gt a (Fin 15) \<or> js_gt b (Fin 15)"
    and "a = NaN \<or> nonneg a" and "b = NaN \<or> nonneg b" and "c = NaN \<or> nonneg c"
  shows "aggregate a b c = NaN \<or> (\<exists>v. aggregate a b c = Fin v \<and> v \<le> 70)"
proof (cases "a = NaN \<or> b = NaN \<or> c = NaN")
  case True
  then show ?thesis by (auto simp: aggregate_NaN aggregate_NaN_first)
next
  case False
  with assms have n: "nonneg a" "nonneg b" "nonneg c" by simp_all
  show ?thesis
  proof (cases "a = PosInf \<or> b = PosInf \<or> c = PosInf")
    case True
    then have "aggregate a b c = Fin 0" using n by (auto simp: aggregate_PosInf)
    then show ?thesis by simp
  next
    case False
    with n obtain ra rb rc where
      v: "a = Fin ra" "0 \<le> ra" "b = Fin rb" "0 \<le> rb" "c = Fin rc" "0 \<le> rc"
      unfolding nonneg_cases by blast
    have "15 < ra \<or> 15 < rb" using assms(1) by (simp add: v js_gt_def)
    then have "100 - ra * 2 - rb * 2 - rc * (1 / 2) \<le> 70" using v by auto
    then have "max 0 (min 100 (100 - ra * 2 - rb * 2 - rc * (1 / 2))) \<le> 70" by simp
    then show ?thesis by (simp add: v aggregate_Fin)
  qed
qed

lemma Math_round_not_above:
  assumes "x = NaN \<or> (\<exists>v. x = Fin v \<and> v \<le> real_of_int n)"
  shows "\<not> js_gt (Math_round x) (Fin (real_of_int n))"
  using assms
proof
  assume "x = NaN"
  then show ?thesis by (simp add: js_gt_def)
next
  assume "\<exists>v. x = Fin v \<and> v \<le> real_of_int n"
  then obtain v where v: "x = Fin v" "v \<le> real_of_int n" by blast
  then have "v + 1 / 2 < real_of_int (n + 1)" by simp
  then have "\<lfloor>v + 1 / 2\<rfloor> < n + 1" by (simp only: floor_less_iff)
  then show ?thesis by (simp add: v(1) js_gt_def)
qed



lemma analyzePosture_cases:
  "analyzePosture kps =
     \<lparr>score = Fin 0, message = ''Position yourself in frame'', color = Warning\<rparr> \<or>
   analyzePosture kps =
     \<lparr>score = Fin 0, message = ''Move closer or improve lighting'', color = Warning\<rparr> \<or>
   (\<exists>ls rs lh rh. analyzePosture kps =
      feedback (tilt ls rs) (tilt lh rh) (clamped_score ls rs lh rh))"
  by (auto simp: analyzePosture_def analyzeLandmarks_def clamped_score_def Let_def
      split: option.splits)

lemma straighten_bound:
  assumes "message (analyzePosture kps) = ''Straighten your shoulders''"
  shows "\<not> js_gt (score (analyzePosture kps)) (Fin 80)"
proof -
  from analyzePosture_cases [of kps] assms obtain ls rs lh rh where
    r: "analyzePosture kps = feedback (tilt ls rs) (tilt lh rh) (clamped_score ls rs lh rh)"
    by auto
  have t: "js_gt (tilt ls rs) (Fin 15)"
    using assms unfolding r by (simp add: feedback_def split: if_splits)
  from aggregate_tilted [OF t tilt_range spineAngle_range]
  have "clamped_score ls rs lh rh = NaN \<or> (\<exists>v. clamped_score ls rs lh rh = Fin v \<and> v \<le> 70)"
    by (simp add: clamped_score_def)
  then show ?thesis
  proof
    assume "clamped_score ls rs lh rh = NaN"
    then show ?thesis by (simp add: r feedback_score js_gt_def)
  next
    assume "\<exists>v. clamped_score ls rs lh rh = Fin v \<and> v \<le> 70"
    then obtain v where v: "clamped_score ls rs lh rh = Fin v" "v \<le> 70" by blast
    have "\<not> 81 \<le> v + 1 / 2" using v(2) by simp
    then show ?thesis by (simp add: r feedback_score v(1) js_gt_def)
  qed
qed

section \<open>Properties\<close>

subsection \<open>The range of the score\<close>

text \<open>
  C1. The score of every result is an integer between 0 and 100. The clamp of line 86
  does not achieve this: when the two shoulders have the same coordinates, the shoulder
  tilt is \<open>0 / 0\<close>, \<^verbatim>\<open>Math.max\<close> and \<^verbatim>\<open>Math.min\<close> hand the \<open>NaN\<close> on, and the
  result carries the score \<open>NaN\<close>. The theorem evaluates \<^verbatim>\<open>analyzePosture\<close> on such
  a frame, every landmark present with confidence 0.9.
\<close>

theorem coincident_shoulders_score:
  "analyzePosture coincident_shoulders_frame =
     \<lparr>score = NaN, message = ''Poor posture - sit up straight'', color = Destructive\<rparr>"
  by (simp add: coincident_shoulders_frame_def analyzePosture_def analyzeLandmarks_def
      frame_defs geometry_defs)

subsection \<open>Zero width\<close>

text \<open>
  C2. With zero shoulder or hip width the result still has score 0 and a message. The
  program does not achieve this when the two landmarks of a pair coincide: on the frame
  below the four landmarks pass the gate, the hip width is zero, the hip tilt is
  \<open>0 / 0\<close>, and the result carries the score \<open>NaN\<close> with the message of the last rule.
  It is the defect of C1: the clamp of line 86 hands \<open>NaN\<close> on.
\<close>

theorem coincident_hips_score:
  "found coincident_hips_frame (keypoint ''left_shoulder'' 80 100 (9 / 10))
     (keypoint ''right_shoulder'' 120 100 (9 / 10)) (keypoint ''left_hip'' 100 200 (9 / 10))
     (keypoint ''right_hip'' 100 200 (9 / 10)) \<and>
   passes_gate (keypoint ''left_shoulder'' 80 100 (9 / 10))
     (keypoint ''right_shoulder'' 120 100 (9 / 10)) (keypoint ''left_hip'' 100 200 (9 / 10))
     (keypoint ''right_hip'' 100 200 (9 / 10)) \<and>
   js_sub (kp_x (keypoint ''left_hip'' 100 200 (9 / 10)))
     (kp_x (keypoint ''right_hip'' 100 200 (9 / 10))) = Fin 0 \<and>
   analyzePosture coincident_hips_frame =
     \<lparr>score = NaN, message = ''Poor posture - sit up straight'', color = Destructive\<rparr>"
proof -
  have f: "found coincident_hips_frame (keypoint ''left_shoulder'' 80 100 (9 / 10))
     (keypoint ''right_shoulder'' 120 100 (9 / 10)) (keypoint ''left_hip'' 100 200 (9 / 10))
     (keypoint ''right_hip'' 100 200 (9 / 10))"
    unfolding coincident_hips_frame_def by (rule found_frame) simp_all
  have g: "passes_gate (keypoint ''left_shoulder'' 80 100 (9 / 10))
     (keypoint ''right_shoulder'' 120 100 (9 / 10)) (keypoint ''left_hip'' 100 200 (9 / 10))
     (keypoint ''right_hip'' 100 200 (9 / 10))"
    by (rule passes_gate_frame) simp_all
  have z: "js_sub (kp_x (keypoint ''left_hip'' 100 200 (9 / 10)))
     (kp_x (keypoint ''right_hip'' 100 200 (9 / 10))) = Fin 0"
    by (simp add: keypoint_def js_sub_def)
  have c: "clamped_score (keypoint ''left_shoulder'' 80 100 (9 / 10))
     (keypoint ''right_shoulder'' 120 100 (9 / 10)) (keypoint ''left_hip'' 100 200 (9 / 10))
     (keypoint ''right_hip'' 100 200 (9 / 10)) = NaN"
    by (simp add: clamped_score_def tilt_value aggregate_NaN)
  have "analyzePosture coincident_hips_frame =
     \<lparr>score = NaN, message = ''Poor posture - sit up straight'', color = Destructive\<rparr>"
    by (simp add: analyzePosture_feedback [OF f g] c tilt_value feedback_def js_gt_def)
  with f g z show ?thesis by blast
qed

subsection \<open>The confidence gate\<close>

text \<open>
  C3, as amended. When the four landmarks are found and one of them carries a confidence
  that is a number below 0.3, the result is score 0, "Move closer or improve lighting",
  warning. The result is this constant: no coordinate enters it.
\<close>

theorem low_confidence_gate:
  assumes "found kps ls rs lh rh"
    and "k = ls \<or> k = rs \<or> k = lh \<or> k = rh"
    and "kp_score k = Some c" and "js_lt c minConfidence"
  shows "analyzePosture kps =
     \<lparr>score = Fin 0, message = ''Move closer or improve lighting'', color = Warning\<rparr>"
proof -
  have "low_confidence k" using assms(3,4) by (simp add: low_confidence_def)
  with assms(2) have "low_confidence ls \<or> low_confidence rs \<or> low_confidence lh \<or> low_confidence rh"
    by blast
  then have "analyzeLandmarks ls rs lh rh =
     \<lparr>score = Fin 0, message = ''Move closer or improve lighting'', color = Warning\<rparr>"
    by (simp add: analyzeLandmarks_def)
  with analyzePosture_found [OF assms(1)] show ?thesis by simp
qed

text \<open>
  The example of the specification: the left hip has confidence 0.1.
\<close>

theorem low_confidence_gate_witness:
  "found low_score_frame (keypoint ''left_shoulder'' 80 100 (9 / 10))
     (keypoint ''right_shoulder'' 120 100 (9 / 10)) (keypoint ''left_hip'' 80 200 (1 / 10))
     (keypoint ''right_hip'' 120 200 (9 / 10)) \<and>
   kp_score (keypoint ''left_hip'' 80 200 (1 / 10)) = Some (Fin (1 / 10)) \<and>
   js_lt (Fin (1 / 10)) minConfidence \<and>
   analyzePosture low_score_frame =
     \<lparr>score = Fin 0, message = ''Move closer or improve lighting'', color = Warning\<rparr>"
proof -
  have f: "found low_score_frame (keypoint ''left_shoulder'' 80 100 (9 / 10))
     (keypoint ''right_shoulder'' 120 100 (9 / 10)) (keypoint ''left_hip'' 80 200 (1 / 10))
     (keypoint ''right_hip'' 120 200 (9 / 10))"
    by (simp add: found_def low_score_frame_def keypoint_def named_def)
  have s: "kp_score (keypoint ''left_hip'' 80 200 (1 / 10)) = Some (Fin (1 / 10))"
    by (simp add: keypoint_def)
  have l: "js_lt (Fin (1 / 10)) minConfidence" by (simp add: minConfidence_def)
  from low_confidence_gate [OF f _ s l] f s l show ?thesis by blast
qed

text \<open>
  C3 as stated fails for an absent confidence: \<^verbatim>\<open>undefined < 0.3\<close> is false, the gate
  lets the landmark through, and the geometry is computed. With the left shoulder's score
  absent on a level frame the result is score 100, "Good posture detected!".
\<close>

theorem absent_score_passes_gate:
  "found absent_score_frame
     \<lparr>kp_x = Fin 80, kp_y = Fin 100, kp_score = None, kp_name = Some ''left_shoulder''\<rparr>
     (keypoint ''right_shoulder'' 120 100 (9 / 10)) (keypoint ''left_hip'' 80 200 (9 / 10))
     (keypoint ''right_hip'' 120 200 (9 / 10)) \<and>
   analyzePosture absent_score_frame =
     \<lparr>score = Fin 100, message = ''Good posture detected!'', color = Success\<rparr>"
  by (simp add: absent_score_frame_def found_def analyzePosture_def analyzeLandmarks_def
      frame_defs geometry_defs)

subsection \<open>The feedback rules\<close>

text \<open>
  C4, as amended. For four landmarks that are found and pass the gate, message and color
  follow the first rule that matches: shoulder tilt above 15; hip tilt above 15; score
  above 80; score above 60; otherwise. The score of the last three rules is the clamped
  score before rounding (\<open>clamped_score\<close>), not the rounded score of the result.
  Every comparison is that of the program: false on \<open>NaN\<close>.
\<close>

theorem feedback_rules:
  assumes "found kps ls rs lh rh" and "passes_gate ls rs lh rh"
  shows
    "(js_gt (tilt ls rs) (Fin 15) \<longrightarrow>
        message (analyzePosture kps) = ''Straighten your shoulders'' \<and>
        color (analyzePosture kps) = Destructive) \<and>
     (\<not> js_gt (tilt ls rs) (Fin 15) \<and> js_gt (tilt lh rh) (Fin 15) \<longrightarrow>
        message (analyzePosture kps) = ''Adjust your sitting posture'' \<and>
        color (analyzePosture kps) = Warning) \<and>
     (\<not> js_gt (tilt ls rs) (Fin 15) \<and> \<not> js_gt (tilt lh rh) (Fin 15) \<and>
      js_gt (clamped_score ls rs lh rh) (Fin 80) \<longrightarrow>
        message (analyzePosture kps) = ''Good posture detected!'' \<and>
        color (analyzePosture kps) = Success) \<and>
     (\<not> js_gt (tilt ls rs) (Fin 15) \<and> \<not> js_gt (tilt lh rh) (Fin 15) \<and>
      \<not> js_gt (clamped_score ls rs lh rh) (Fin 80) \<and>
      js_gt (clamped_score ls rs lh rh) (Fin 60) \<longrightarrow>
        message (analyzePosture kps) = ''Minor adjustments needed'' \<and>
        color (analyzePosture kps) = Warning) \<and>
     (\<not> js_gt (tilt ls rs) (Fin 15) \<and> \<not> js_gt (tilt lh rh) (Fin 15) \<and>
      \<not> js_gt (clamped_score ls rs lh rh) (Fin 80) \<and>
      \<not> js_gt (clamped_score ls rs lh rh) (Fin 60) \<longrightarrow>
        message (analyzePosture kps) = ''Poor posture - sit up straight'' \<and>
        color (analyzePosture kps) = Destructive)"
proof -
  have "analyzePosture kps = feedback (tilt ls rs) (tilt lh rh) (clamped_score ls rs lh rh)"
    using analyzePosture_found [OF assms(1)] analyzeLandmarks_passes [OF assms(2)] by simp
  then show ?thesis by (simp add: feedback_def)
qed

text \<open>
  One frame for each of the five rules.
\<close>

theorem feedback_rules_witness:
  "message (analyzePosture tilted_shoulders_frame) = ''Straighten your shoulders'' \<and> color (analyzePosture tilted_shoulders_frame) = Destructive \<and>
   message (analyzePosture tilted_hips_frame) = ''Adjust your sitting posture'' \<and> color (analyzePosture tilted_hips_frame) = Warning \<and>
   message (analyzePosture level_frame) = ''Good posture detected!'' \<and> color (analyzePosture level_frame) = Success \<and>
   message (analyzePosture leaning_frame) = ''Minor adjustments needed'' \<and> color (analyzePosture leaning_frame) = Warning \<and>
   message (analyzePosture slouched_frame) = ''Poor posture - sit up straight'' \<and> color (analyzePosture slouched_frame) = Destructive"
proof -
  have f1: "found tilted_shoulders_frame
      (keypoint ''left_shoulder'' 0 0 (9 / 10))
      (keypoint ''right_shoulder'' 100 20 (9 / 10))
      (keypoint ''left_hip'' 0 100 (9 / 10))
      (keypoint ''right_hip'' 100 100 (9 / 10))"
    unfolding tilted_shoulders_frame_def by (rule found_frame) simp_all
  have g1: "passes_gate
      (keypoint ''left_shoulder'' 0 0 (9 / 10))
      (keypoint ''right_shoulder'' 100 20 (9 / 10))
      (keypoint ''left_hip'' 0 100 (9 / 10))
      (keypoint ''right_hip'' 100 100 (9 / 10))"
    by (rule passes_gate_frame) simp_all
  have h1: "js_gt (tilt (keypoint ''left_shoulder'' 0 0 (9 / 10))
      (keypoint ''right_shoulder'' 100 20 (9 / 10))) (Fin 15)"
    by (simp add: clamped_score_def tilt_value spineAngle_vertical aggregate_Fin js_gt_def)
  from feedback_rules [OF f1 g1] h1
  have r1: "message (analyzePosture tilted_shoulders_frame) = ''Straighten your shoulders'' \<and> color (analyzePosture tilted_shoulders_frame) = Destructive"
    by blast
  have f2: "found tilted_hips_frame
      (keypoint ''left_shoulder'' 0 0 (9 / 10))
      (keypoint ''right_shoulder'' 100 0 (9 / 10))
      (keypoint ''left_hip'' 0 100 (9 / 10))
      (keypoint ''right_hip'' 100 120 (9 / 10))"
    unfolding tilted_hips_frame_def by (rule found_frame) simp_all
  have g2: "passes_gate
      (keypoint ''left_shoulder'' 0 0 (9 / 10))
      (keypoint ''right_shoulder'' 100 0 (9 / 10))
      (keypoint ''left_hip'' 0 100 (9 / 10))
      (keypoint ''right_hip'' 100 120 (9 / 10))"
    by (rule passes_gate_frame) simp_all
  have h2: "\<not> js_gt (tilt (keypoint ''left_shoulder'' 0 0 (9 / 10))
      (keypoint ''right_shoulder'' 100 0 (9 / 10))) (Fin 15) \<and>
      js_gt (tilt (keypoint ''left_hip'' 0 100 (9 / 10))
      (keypoint ''right_hip'' 100 120 (9 / 10))) (Fin 15)"
    by (simp add: clamped_score_def tilt_value spineAngle_vertical aggregate_Fin js_gt_def)
  from feedback_rules [OF f2 g2] h2
  have r2: "message (analyzePosture tilted_hips_frame) = ''Adjust your sitting posture'' \<and> color (analyzePosture tilted_hips_frame) = Warning"
    by blast
  have f3: "found level_frame
      (keypoint ''left_shoulder'' 80 100 (9 / 10))
      (keypoint ''right_shoulder'' 120 100 (9 / 10))
      (keypoint ''left_hip'' 80 200 (9 / 10))
      (keypoint ''right_hip'' 120 200 (9 / 10))"
    by (simp add: found_def level_frame_def keypoint_def named_def)
  have g3: "passes_gate
      (keypoint ''left_shoulder'' 80 100 (9 / 10))
      (keypoint ''right_shoulder'' 120 100 (9 / 10))
      (keypoint ''left_hip'' 80 200 (9 / 10))
      (keypoint ''right_hip'' 120 200 (9 / 10))"
    by (rule passes_gate_frame) simp_all
  have h3: "\<not> js_gt (tilt (keypoint ''left_shoulder'' 80 100 (9 / 10))
      (keypoint ''right_shoulder'' 120 100 (9 / 10))) (Fin 15) \<and>
      \<not> js_gt (tilt (keypoint ''left_hip'' 80 200 (9 / 10))
      (keypoint ''right_hip'' 120 200 (9 / 10))) (Fin 15) \<and>
      js_gt (clamped_score (keypoint ''left_shoulder'' 80 100 (9 / 10))
      (keypoint ''right_shoulder'' 120 100 (9 / 10))
      (keypoint ''left_hip'' 80 200 (9 / 10))
      (keypoint ''right_hip'' 120 200 (9 / 10))) (Fin 80)"
    by (simp add: clamped_score_def tilt_value spineAngle_vertical aggregate_Fin js_gt_def)
  from feedback_rules [OF f3 g3] h3
  have r3: "message (analyzePosture level_frame) = ''Good posture detected!'' \<and> color (analyzePosture level_frame) = Success"
    by blast
  have f4: "found leaning_frame
      (keypoint ''left_shoulder'' 0 0 (9 / 10))
      (keypoint ''right_shoulder'' 100 0 (9 / 10))
      (keypoint ''left_hip'' 100 100 (9 / 10))
      (keypoint ''right_hip'' 200 100 (9 / 10))"
    unfolding leaning_frame_def by (rule found_frame) simp_all
  have g4: "passes_gate
      (keypoint ''left_shoulder'' 0 0 (9 / 10))
      (keypoint ''right_shoulder'' 100 0 (9 / 10))
      (keypoint ''left_hip'' 100 100 (9 / 10))
      (keypoint ''right_hip'' 200 100 (9 / 10))"
    by (rule passes_gate_frame) simp_all
  have s4: "spineAngle (center (keypoint ''left_shoulder'' 0 0 (9 / 10))
      (keypoint ''right_shoulder'' 100 0 (9 / 10)))
      (center (keypoint ''left_hip'' 100 100 (9 / 10))
      (keypoint ''right_hip'' 200 100 (9 / 10))) = Fin 45"
    by (rule spineAngle_diagonal [of 100]) simp_all
  have h4: "\<not> js_gt (tilt (keypoint ''left_shoulder'' 0 0 (9 / 10))
      (keypoint ''right_shoulder'' 100 0 (9 / 10))) (Fin 15) \<and>
      \<not> js_gt (tilt (keypoint ''left_hip'' 100 100 (9 / 10))
      (keypoint ''right_hip'' 200 100 (9 / 10))) (Fin 15) \<and>
      \<not> js_gt (clamped_score (keypoint ''left_shoulder'' 0 0 (9 / 10))
      (keypoint ''right_shoulder'' 100 0 (9 / 10))
      (keypoint ''left_hip'' 100 100 (9 / 10))
      (keypoint ''right_hip'' 200 100 (9 / 10))) (Fin 80) \<and>
      js_gt (clamped_score (keypoint ''left_shoulder'' 0 0 (9 / 10))
      (keypoint ''right_shoulder'' 100 0 (9 / 10))
      (keypoint ''left_hip'' 100 100 (9 / 10))
      (keypoint ''right_hip'' 200 100 (9 / 10))) (Fin 60)"
    by (simp add: clamped_score_def tilt_value s4 aggregate_Fin js_gt_def)
  from feedback_rules [OF f4 g4] h4
  have r4: "message (analyzePosture leaning_frame) = ''Minor adjustments needed'' \<and> color (analyzePosture leaning_frame) = Warning"
    by blast
  have f5: "found slouched_frame
      (keypoint ''left_shoulder'' 0 0 (9 / 10))
      (keypoint ''right_shoulder'' 100 10 (9 / 10))
      (keypoint ''left_hip'' 0 100 (9 / 10))
      (keypoint ''right_hip'' 100 110 (9 / 10))"
    unfolding slouched_frame_def by (rule found_frame) simp_all
  have g5: "passes_gate
      (keypoint ''left_shoulder'' 0 0 (9 / 10))
      (keypoint ''right_shoulder'' 100 10 (9 / 10))
      (keypoint ''left_hip'' 0 100 (9 / 10))
      (keypoint ''right_hip'' 100 110 (9 / 10))"
    by (rule passes_gate_frame) simp_all
  have h5: "\<not> js_gt (tilt (keypoint ''left_shoulder'' 0 0 (9 / 10))
      (keypoint ''right_shoulder'' 100 10 (9 / 10))) (Fin 15) \<and>
      \<not> js_gt (tilt (keypoint ''left_hip'' 0 100 (9 / 10))
      (keypoint ''right_hip'' 100 110 (9 / 10))) (Fin 15) \<and>
      \<not> js_gt (clamped_score (keypoint ''left_shoulder'' 0 0 (9 / 10))
      (keypoint ''right_shoulder'' 100 10 (9 / 10))
      (keypoint ''left_hip'' 0 100 (9 / 10))
      (keypoint ''right_hip'' 100 110 (9 / 10))) (Fin 80) \<and>
      \<not> js_gt (clamped_score (keypoint ''left_shoulder'' 0 0 (9 / 10))
      (keypoint ''right_shoulder'' 100 10 (9 / 10))
      (keypoint ''left_hip'' 0 100 (9 / 10))
      (keypoint ''right_hip'' 100 110 (9 / 10))) (Fin 60)"
    by (simp add: clamped_score_def tilt_value spineAngle_vertical aggregate_Fin js_gt_def)
  from feedback_rules [OF f5 g5] h5
  have r5: "message (analyzePosture slouched_frame) = ''Poor posture - sit up straight'' \<and> color (analyzePosture slouched_frame) = Destructive"
    by blast
  from r1 r2 r3 r4 r5 show ?thesis by blast
qed

text \<open>
  C4 with the score of the result in its rules fails: a clamped score of 80.4 is above
  80 and gives "Good posture detected!", while the result carries the score 80, which is
  not above 80 and is above 60.
\<close>

theorem rounded_score_80_good_posture:
  "found rounded_down_frame (keypoint ''left_shoulder'' 0 0 (9 / 10))
     (keypoint ''right_shoulder'' 1000 98 (9 / 10)) (keypoint ''left_hip'' 0 500 (9 / 10))
     (keypoint ''right_hip'' 1000 500 (9 / 10)) \<and>
   passes_gate (keypoint ''left_shoulder'' 0 0 (9 / 10))
     (keypoint ''right_shoulder'' 1000 98 (9 / 10)) (keypoint ''left_hip'' 0 500 (9 / 10))
     (keypoint ''right_hip'' 1000 500 (9 / 10)) \<and>
   \<not> js_gt (tilt (keypoint ''left_shoulder'' 0 0 (9 / 10))
     (keypoint ''right_shoulder'' 1000 98 (9 / 10))) (Fin 15) \<and>
   \<not> js_gt (tilt (keypoint ''left_hip'' 0 500 (9 / 10))
     (keypoint ''right_hip'' 1000 500 (9 / 10))) (Fin 15) \<and>
   \<not> js_gt (score (analyzePosture rounded_down_frame)) (Fin 80) \<and>
   js_gt (score (analyzePosture rounded_down_frame)) (Fin 60) \<and>
   analyzePosture rounded_down_frame =
     \<lparr>score = Fin 80, message = ''Good posture detected!'', color = Success\<rparr>"
proof -
  have f: "found rounded_down_frame (keypoint ''left_shoulder'' 0 0 (9 / 10))
     (keypoint ''right_shoulder'' 1000 98 (9 / 10)) (keypoint ''left_hip'' 0 500 (9 / 10))
     (keypoint ''right_hip'' 1000 500 (9 / 10))"
    unfolding rounded_down_frame_def by (rule found_frame) simp_all
  have g: "passes_gate (keypoint ''left_shoulder'' 0 0 (9 / 10))
     (keypoint ''right_shoulder'' 1000 98 (9 / 10)) (keypoint ''left_hip'' 0 500 (9 / 10))
     (keypoint ''right_hip'' 1000 500 (9 / 10))"
    by (rule passes_gate_frame) simp_all
  have t: "\<not> js_gt (tilt (keypoint ''left_shoulder'' 0 0 (9 / 10))
     (keypoint ''right_shoulder'' 1000 98 (9 / 10))) (Fin 15)"
    "\<not> js_gt (tilt (keypoint ''left_hip'' 0 500 (9 / 10))
     (keypoint ''right_hip'' 1000 500 (9 / 10))) (Fin 15)"
    by (simp_all add: tilt_value js_gt_def)
  have c: "clamped_score (keypoint ''left_shoulder'' 0 0 (9 / 10))
     (keypoint ''right_shoulder'' 1000 98 (9 / 10)) (keypoint ''left_hip'' 0 500 (9 / 10))
     (keypoint ''right_hip'' 1000 500 (9 / 10)) = Fin (402 / 5)"
    by (simp add: clamped_score_def tilt_value spineAngle_vertical aggregate_Fin)
  have r: "analyzePosture rounded_down_frame =
     \<lparr>score = Fin 80, message = ''Good posture detected!'', color = Success\<rparr>"
    using t by (simp add: analyzePosture_feedback [OF f g] c feedback_def js_gt_def)
  have "\<not> js_gt (score (analyzePosture rounded_down_frame)) (Fin 80)"
    "js_gt (score (analyzePosture rounded_down_frame)) (Fin 60)"
    by (simp_all add: r js_gt_def)
  with f g t r show ?thesis by blast
qed

subsection \<open>The score formula\<close>



subsection \<open>Lookup of the landmarks\<close>

text \<open>
  C6. When one of the four required names has no keypoint, the result is score 0,
  "Position yourself in frame", warning. When each of them has one, the analysis runs on
  the first keypoint of the sequence that carries each name.
\<close>

theorem missing_landmark:
  "((\<exists>n \<in> set required. \<forall>k \<in> set kps. kp_name k \<noteq> Some n) \<longrightarrow>
      analyzePosture kps =
        \<lparr>score = Fin 0, message = ''Position yourself in frame'', color = Warning\<rparr>) \<and>
   ((\<forall>n \<in> set required. \<exists>k \<in> set kps. kp_name k = Some n) \<longrightarrow>
      (\<exists>i1 i2 i3 i4.
         first_match ''left_shoulder'' kps i1 \<and> first_match ''right_shoulder'' kps i2 \<and>
         first_match ''left_hip'' kps i3 \<and> first_match ''right_hip'' kps i4 \<and>
         analyzePosture kps = analyzeLandmarks (kps ! i1) (kps ! i2) (kps ! i3) (kps ! i4)))"
proof (intro conjI impI)
  assume "\<exists>n \<in> set required. \<forall>k \<in> set kps. kp_name k \<noteq> Some n"
  then obtain n where n: "n \<in> set required" "\<forall>k \<in> set kps. \<not> named n k"
    by (auto simp: named_def)
  then have "array_find (named n) kps = None" by (simp add: find_none)
  with n(1) show "analyzePosture kps =
      \<lparr>score = Fin 0, message = ''Position yourself in frame'', color = Warning\<rparr>"
    by (auto simp: required_def analyzePosture_def split: option.splits)
next
  assume a: "\<forall>n \<in> set required. \<exists>k \<in> set kps. kp_name k = Some n"
  have "\<exists>k \<in> set kps. kp_name k = Some ''left_shoulder''" using a by (simp add: required_def)
  from first_match_find [OF this] obtain i1 where
    i1: "first_match ''left_shoulder'' kps i1" "array_find (named ''left_shoulder'') kps = Some (kps ! i1)"
    by blast
  have "\<exists>k \<in> set kps. kp_name k = Some ''right_shoulder''" using a by (simp add: required_def)
  from first_match_find [OF this] obtain i2 where
    i2: "first_match ''right_shoulder'' kps i2" "array_find (named ''right_shoulder'') kps = Some (kps ! i2)"
    by blast
  have "\<exists>k \<in> set kps. kp_name k = Some ''left_hip''" using a by (simp add: required_def)
  from first_match_find [OF this] obtain i3 where
    i3: "first_match ''left_hip'' kps i3" "array_find (named ''left_hip'') kps = Some (kps ! i3)"
    by blast
  have "\<exists>k \<in> set kps. kp_name k = Some ''right_hip''" using a by (simp add: required_def)
  from first_match_find [OF this] obtain i4 where
    i4: "first_match ''right_hip'' kps i4" "array_find (named ''right_hip'') kps = Some (kps ! i4)"
    by blast
  have "found kps (kps ! i1) (kps ! i2) (kps ! i3) (kps ! i4)"
    using i1(2) i2(2) i3(2) i4(2) by (simp add: found_def)
  then have "analyzePosture kps = analyzeLandmarks (kps ! i1) (kps ! i2) (kps ! i3) (kps ! i4)"
    by (rule analyzePosture_found)
  with i1(1) i2(1) i3(1) i4(1)
  show "\<exists>i1 i2 i3 i4.
         first_match ''left_shoulder'' kps i1 \<and> first_match ''right_shoulder'' kps i2 \<and>
         first_match ''left_hip'' kps i3 \<and> first_match ''right_hip'' kps i4 \<and>
         analyzePosture kps = analyzeLandmarks (kps ! i1) (kps ! i2) (kps ! i3) (kps ! i4)"
    by blast
qed

text \<open>
  A frame without a right hip, and a frame with two left shoulders (positions 0 and 1)
  and two right hips (positions 4 and 5).
\<close>

theorem missing_landmark_witness:
  "analyzePosture no_hip_frame =
     \<lparr>score = Fin 0, message = ''Position yourself in frame'', color = Warning\<rparr> \<and>
   analyzePosture duplicates_frame =
     analyzeLandmarks (duplicates_frame ! 0) (duplicates_frame ! 2)
       (duplicates_frame ! 3) (duplicates_frame ! 4)"
proof -
  have h1: "\<exists>n \<in> set required. \<forall>k \<in> set no_hip_frame. kp_name k \<noteq> Some n"
    by (simp add: required_def no_hip_frame_def keypoint_def)
  have h2: "\<forall>n \<in> set required. \<exists>k \<in> set duplicates_frame. kp_name k = Some n"
    by (simp add: required_def duplicates_frame_def keypoint_def)
  have m: "first_match ''left_shoulder'' duplicates_frame 0"
    "first_match ''right_shoulder'' duplicates_frame 2"
    "first_match ''left_hip'' duplicates_frame 3"
    "first_match ''right_hip'' duplicates_frame 4"
    by (simp_all add: first_match_def duplicates_frame_def keypoint_def eval_nat_numeral
        All_less_Suc)
  from h2 missing_landmark [of duplicates_frame] obtain i1 i2 i3 i4 where
    i: "first_match ''left_shoulder'' duplicates_frame i1"
      "first_match ''right_shoulder'' duplicates_frame i2"
      "first_match ''left_hip'' duplicates_frame i3"
      "first_match ''right_hip'' duplicates_frame i4"
    and e: "analyzePosture duplicates_frame =
      analyzeLandmarks (duplicates_frame ! i1) (duplicates_frame ! i2)
        (duplicates_frame ! i3) (duplicates_frame ! i4)"
    by blast
  have "i1 = 0" "i2 = 2" "i3 = 3" "i4 = 4"
    using i m by (blast intro: first_match_unique)+
  with e have "analyzePosture duplicates_frame =
     analyzeLandmarks (duplicates_frame ! 0) (duplicates_frame ! 2)
       (duplicates_frame ! 3) (duplicates_frame ! 4)"
    by simp
  with h1 missing_landmark [of no_hip_frame] show ?thesis by blast
qed

subsection \<open>Monotonicity of the score\<close>

text \<open>
  C9. The clamped score never increases when one of shoulder tilt, hip tilt and spine
  angle increases and the other two stay as they are. The features are non-negative
  numbers, infinity included; \<open>a \<le> a'\<close> is the feature that changes, in each of the
  three positions.
\<close>

theorem aggregate_monotone:
  assumes "nonneg a" "nonneg a'" "js_le a a'" "nonneg b" "nonneg c"
  shows "js_le (aggregate a' b c) (aggregate a b c) \<and>
         js_le (aggregate b a' c) (aggregate b a c) \<and>
         js_le (aggregate b c a') (aggregate b c a)"
  using assms by (simp add: aggregate_mono js_le_refl)

text \<open>
  A shoulder tilt, a hip tilt and a spine angle going from 5 to infinity.
\<close>

theorem aggregate_monotone_witness:
  "nonneg (Fin 5) \<and> nonneg PosInf \<and> js_le (Fin 5) PosInf \<and> nonneg (Fin 10) \<and> nonneg (Fin 20) \<and>
   aggregate (Fin 5) (Fin 10) (Fin 20) = Fin 60 \<and> aggregate PosInf (Fin 10) (Fin 20) = Fin 0 \<and>
   js_le (aggregate PosInf (Fin 10) (Fin 20)) (aggregate (Fin 5) (Fin 10) (Fin 20)) \<and>
   js_le (aggregate (Fin 10) PosInf (Fin 20)) (aggregate (Fin 10) (Fin 5) (Fin 20)) \<and>
   js_le (aggregate (Fin 10) (Fin 20) PosInf) (aggregate (Fin 10) (Fin 20) (Fin 5))"
proof -
  have h: "nonneg (Fin 5)" "nonneg PosInf" "js_le (Fin 5) PosInf" "nonneg (Fin 10)" "nonneg (Fin 20)"
    by (simp_all add: nonneg_def js_le_def)
  have v: "aggregate (Fin 5) (Fin 10) (Fin 20) = Fin 60" "aggregate PosInf (Fin 10) (Fin 20) = Fin 0"
    by (simp_all add: aggregate_def js_sub_def Math_max_def Math_min_def signed_inf_def)
  from aggregate_monotone [OF h] h v show ?thesis by blast
qed

subsection \<open>The score under a tilt override\<close>

text \<open>
  C10, as amended. When a tilt rule fires on four landmarks that are found and pass the
  gate, the score of the result is still \<^verbatim>\<open>Math.round\<close> of the clamped score, not a
  forced 0, and the message is that of the tilt rule. That score is never above 70: a
  tilt above 15 costs more than 30 points.
\<close>

theorem override_keeps_score:
  assumes "found kps ls rs lh rh" and "passes_gate ls rs lh rh"
    and "js_gt (tilt ls rs) (Fin 15) \<or> js_gt (tilt lh rh) (Fin 15)"
  shows "score (analyzePosture kps) = Math_round (clamped_score ls rs lh rh) \<and>
     \<not> js_gt (score (analyzePosture kps)) (Fin 70) \<and>
     (message (analyzePosture kps) = ''Straighten your shoulders'' \<and>
        color (analyzePosture kps) = Destructive \<or>
      message (analyzePosture kps) = ''Adjust your sitting posture'' \<and>
        color (analyzePosture kps) = Warning)"
proof -
  have s: "score (analyzePosture kps) = Math_round (clamped_score ls rs lh rh)"
    by (simp only: analyzePosture_feedback [OF assms(1,2)] feedback_score)
  from aggregate_override [OF assms(3) tilt_range tilt_range spineAngle_range]
  have "clamped_score ls rs lh rh = NaN \<or>
        (\<exists>v. clamped_score ls rs lh rh = Fin v \<and> v \<le> real_of_int 70)"
    by (simp add: clamped_score_def)
  from Math_round_not_above [OF this]
  have b: "\<not> js_gt (score (analyzePosture kps)) (Fin 70)" by (simp add: s)
  have m: "message (analyzePosture kps) = ''Straighten your shoulders'' \<and>
        color (analyzePosture kps) = Destructive \<or>
      message (analyzePosture kps) = ''Adjust your sitting posture'' \<and>
        color (analyzePosture kps) = Warning"
    using assms(3) by (auto simp: analyzePosture_feedback [OF assms(1,2)] feedback_def)
  from s b m show ?thesis by blast
qed

text \<open>
  The frame of the specification, shoulders at \<open>(0, 0)\<close> and \<open>(100, 20)\<close>: the
  shoulder rule fires, the clamped score is 60 and so is the score.
\<close>

theorem override_keeps_score_witness:
  "found tilted_shoulders_frame (keypoint ''left_shoulder'' 0 0 (9 / 10))
     (keypoint ''right_shoulder'' 100 20 (9 / 10)) (keypoint ''left_hip'' 0 100 (9 / 10))
     (keypoint ''right_hip'' 100 100 (9 / 10)) \<and>
   passes_gate (keypoint ''left_shoulder'' 0 0 (9 / 10))
     (keypoint ''right_shoulder'' 100 20 (9 / 10)) (keypoint ''left_hip'' 0 100 (9 / 10))
     (keypoint ''right_hip'' 100 100 (9 / 10)) \<and>
   js_gt (tilt (keypoint ''left_shoulder'' 0 0 (9 / 10))
     (keypoint ''right_shoulder'' 100 20 (9 / 10))) (Fin 15) \<and>
   analyzePosture tilted_shoulders_frame =
     \<lparr>score = Fin 60, message = ''Straighten your shoulders'', color = Destructive\<rparr>"
proof -
  have f: "found tilted_shoulders_frame (keypoint ''left_shoulder'' 0 0 (9 / 10))
     (keypoint ''right_shoulder'' 100 20 (9 / 10)) (keypoint ''left_hip'' 0 100 (9 / 10))
     (keypoint ''right_hip'' 100 100 (9 / 10))"
    unfolding tilted_shoulders_frame_def by (rule found_frame) simp_all
  have g: "passes_gate (keypoint ''left_shoulder'' 0 0 (9 / 10))
     (keypoint ''right_shoulder'' 100 20 (9 / 10)) (keypoint ''left_hip'' 0 100 (9 / 10))
     (keypoint ''right_hip'' 100 100 (9 / 10))"
    by (rule passes_gate_frame) simp_all
  have t: "js_gt (tilt (keypoint ''left_shoulder'' 0 0 (9 / 10))
     (keypoint ''right_shoulder'' 100 20 (9 / 10))) (Fin 15)"
    by (simp add: tilt_value js_gt_def)
  have c: "clamped_score (keypoint ''left_shoulder'' 0 0 (9 / 10))
     (keypoint ''right_shoulder'' 100 20 (9 / 10)) (keypoint ''left_hip'' 0 100 (9 / 10))
     (keypoint ''right_hip'' 100 100 (9 / 10)) = Fin 60"
    by (simp add: clamped_score_def tilt_value spineAngle_vertical aggregate_Fin)
  have m: "message (analyzePosture tilted_shoulders_frame) = ''Straighten your shoulders'' \<and>
     color (analyzePosture tilted_shoulders_frame) = Destructive"
    using t by (simp add: analyzePosture_feedback [OF f g] feedback_def)
  from override_keeps_score [OF f g disjI1 [OF t]]
  have "score (analyzePosture tilted_shoulders_frame) = Fin 60" by (simp add: c)
  with m have "analyzePosture tilted_shoulders_frame =
     \<lparr>score = Fin 60, message = ''Straighten your shoulders'', color = Destructive\<rparr>"
    by (cases "analyzePosture tilted_shoulders_frame") simp
  with f g t show ?thesis by blast
qed

text \<open>
  C10 as stated fails in its last part: no result with the message "Straighten your
  shoulders" carries a score above 80.
\<close>

theorem straighten_never_above_80:
  "\<not> (\<exists>kps. message (analyzePosture kps) = ''Straighten your shoulders'' \<and>
             color (analyzePosture kps) = Destructive \<and>
             js_gt (score (analyzePosture kps)) (Fin 80))"
  using straighten_bound by blast

end
